theory Spec2Isabelle
  imports Main "HOL-Library.AList"
begin

section \<open>Values of the provisioning library that the stack passes around\<close>

text \<open>
  The stack in \<^verbatim>\<open>lib/app-stack.ts\<close> builds objects of the provisioning library and
  mutates some of them afterwards (\<^verbatim>\<open>addVolume\<close>, \<^verbatim>\<open>addMountPoints\<close>,
  \<^verbatim>\<open>connections.allowTo\<close>, \<^verbatim>\<open>Tags.of(r).add\<close>). An object reference is a
  \<open>handle\<close>: the position of the construct in the stack's list of constructs, in
  the order in which the constructor creates them.
\<close>

type_synonym handle = nat

datatype RemovalPolicy = DESTROY | RETAIN | SNAPSHOT

datatype TimeUnit = Seconds | Minutes

datatype Duration = Duration nat TimeUnit

definition Duration_minutes :: "nat \<Rightarrow> Duration" where
  "Duration_minutes n = Duration n Minutes"

definition Duration_seconds :: "nat \<Rightarrow> Duration" where
  "Duration_seconds n = Duration n Seconds"

fun toSeconds :: "Duration \<Rightarrow> nat" where
  "toSeconds (Duration n Seconds) = n"
| "toSeconds (Duration n Minutes) = 60 * n"

datatype Port = Port_tcp nat | Port_udp nat

datatype ContainerImage = fromRegistry string

datatype LogDriver = awsLogs string

section \<open>Properties of each declaration, field by field as the source writes them\<close>

record Environment =
  account :: "string option"
  region :: "string option"

record AppProps =
  appName :: string
  account :: string
  env :: "Environment option"

record ClusterProps =
  clusterName :: string

record FileSystemProps =
  vpc :: handle
  fileSystemName :: string
  removalPolicy :: RemovalPolicy

record PosixUser =
  uid :: string
  gid :: string

record Acl =
  ownerGid :: string
  ownerUid :: string
  permissions :: string

record AccessPointOptions =
  path :: string
  posixUser :: PosixUser
  createAcl :: Acl

record FargateTaskDefinitionProps =
  family :: string
  cpu :: nat
  memoryLimitMiB :: nat

record AuthorizationConfig =
  accessPointId :: handle
  iam :: string

record EfsVolumeConfiguration =
  fileSystemId :: handle
  transitEncryption :: string
  authorizationConfig :: AuthorizationConfig

record Volume =
  name :: string
  efsVolumeConfiguration :: EfsVolumeConfiguration

record PortMapping =
  containerPort :: nat

record ContainerDefinitionOptions =
  image :: ContainerImage
  logging :: LogDriver
  portMappings :: "PortMapping list"

record MountPoint =
  containerPath :: string
  sourceVolume :: string
  readOnly :: bool

record FargateServiceProps =
  serviceName :: string
  cluster :: handle
  taskDefinition :: handle
  desiredCount :: nat
  maxHealthyPercent :: nat
  minHealthyPercent :: nat
  healthCheckGracePeriod :: Duration

record ApplicationLoadBalancerProps =
  loadBalancerName :: string
  vpc :: handle
  internetFacing :: bool

record BaseApplicationListenerProps =
  port :: nat

record HealthCheck =
  path :: string

record AddApplicationTargetsProps =
  port :: nat
  targets :: "handle list"
  deregistrationDelay :: Duration
  healthCheck :: HealthCheck

section \<open>The construct tree of a stack\<close>

text \<open>
  A resource carries the properties it was created with and what later calls added to
  it: the volumes of a task definition, the mount points of a container, the outbound
  rules of a service's connections.
\<close>

datatype Resource =
    Cluster ClusterProps
  | Vpc
  | FileSystem FileSystemProps
  | AccessPoint AccessPointOptions
  | FargateTaskDefinition FargateTaskDefinitionProps "Volume list"
  | ContainerDefinition ContainerDefinitionOptions "MountPoint list"
  | FargateService FargateServiceProps "(handle \<times> Port) list"
  | ApplicationLoadBalancer ApplicationLoadBalancerProps
  | ApplicationListener BaseApplicationListenerProps
  | ApplicationTargetGroup AddApplicationTargetsProps

text \<open>
  The scope of a construct: \<open>This\<close> for \<^verbatim>\<open>new X(this, id, ...)\<close>, and \<open>Of h\<close> for a
  construct made by a method of the object \<open>h\<close> (\<^verbatim>\<open>fs.addAccessPoint\<close>,
  \<^verbatim>\<open>taskDef.addContainer\<close>, \<^verbatim>\<open>lb.addListener\<close>, \<^verbatim>\<open>lbListener.addTargets\<close>) or
  owned by it (the network of the cluster, read as \<^verbatim>\<open>cluster.vpc\<close>).
\<close>

datatype Scope = This | Of handle

record Construct =
  node_scope :: Scope
  node_id :: string
  resource :: Resource
  tags :: "(string \<times> string) list"

record AppStack =
  stack_id :: string
  stack_props :: "AppProps option"
  appName :: string
  constructs :: "Construct list"

text \<open>The object \<^verbatim>\<open>new ecs.Cluster\<close> returns, with its property \<^verbatim>\<open>vpc\<close>.\<close>

record ClusterObject =
  node :: handle
  vpc :: handle

section \<open>JavaScript operators on a string that may be undefined\<close>

text \<open>
  \<^verbatim>\<open>a || b\<close>: \<open>b\<close> when \<open>a\<close> is undefined or the empty string, else \<open>a\<close>.
  \<^verbatim>\<open>a + s\<close> with a string \<open>s\<close>: an undefined \<open>a\<close> is converted to the text
  \<^verbatim>\<open>undefined\<close>.
\<close>

definition js_or :: "string option \<Rightarrow> string \<Rightarrow> string" where
  "js_or a b = (case a of None \<Rightarrow> b | Some x \<Rightarrow> if x = [] then b else x)"


section \<open>The calls into the library, as updates of the stack\<close>

definition Stack_super :: "string \<Rightarrow> AppProps option \<Rightarrow> AppStack" where
  "Stack_super sid props =
     \<lparr>stack_id = sid, stack_props = props, appName = [], constructs = []\<rparr>"

definition new_construct :: "Scope \<Rightarrow> string \<Rightarrow> Resource \<Rightarrow> AppStack \<Rightarrow> handle \<times> AppStack" where
  "new_construct sc cid r st =
     (length (constructs st),
      st\<lparr>constructs := constructs st @
            [\<lparr>node_scope = sc, node_id = cid, resource = r, tags = []\<rparr>]\<rparr>)"

definition modify :: "handle \<Rightarrow> (Construct \<Rightarrow> Construct) \<Rightarrow> AppStack \<Rightarrow> AppStack" where
  "modify h f st = st\<lparr>constructs := (constructs st)[h := f (constructs st ! h)]\<rparr>"

text \<open>
  \<^verbatim>\<open>new ecs.Cluster(this, id, props)\<close> with no network given: the cluster comes with a
  network of its own, which the source reads as \<^verbatim>\<open>cluster.vpc\<close>. The source gives
  that network no identifier; it is recorded under the name \<^verbatim>\<open>Vpc\<close>, in the scope of the
  cluster.
\<close>

definition new_Cluster :: "string \<Rightarrow> ClusterProps \<Rightarrow> AppStack \<Rightarrow> ClusterObject \<times> AppStack" where
  "new_Cluster cid props st =
     (let (c, st1) = new_construct This cid (Cluster props) st;
          (v, st2) = new_construct (Of c) ''Vpc'' Vpc st1
      in (\<lparr>node = c, vpc = v\<rparr>, st2))"

definition new_FileSystem :: "string \<Rightarrow> FileSystemProps \<Rightarrow> AppStack \<Rightarrow> handle \<times> AppStack" where
  "new_FileSystem cid props st = new_construct This cid (FileSystem props) st"

definition addAccessPoint ::
    "handle \<Rightarrow> string \<Rightarrow> AccessPointOptions \<Rightarrow> AppStack \<Rightarrow> handle \<times> AppStack" where
  "addAccessPoint fs cid opts st = new_construct (Of fs) cid (AccessPoint opts) st"

definition new_FargateTaskDefinition ::
    "string \<Rightarrow> FargateTaskDefinitionProps \<Rightarrow> AppStack \<Rightarrow> handle \<times> AppStack" where
  "new_FargateTaskDefinition cid props st =
     new_construct This cid (FargateTaskDefinition props []) st"

fun with_volume :: "Volume \<Rightarrow> Resource \<Rightarrow> Resource" where
  "with_volume v (FargateTaskDefinition p vs) = FargateTaskDefinition p (vs @ [v])"
| "with_volume v r = r"

definition put_volume :: "Volume \<Rightarrow> Construct \<Rightarrow> Construct" where
  "put_volume v c = c\<lparr>resource := with_volume v (resource c)\<rparr>"

definition addVolume :: "handle \<Rightarrow> Volume \<Rightarrow> AppStack \<Rightarrow> AppStack" where
  "addVolume td v st = modify td (put_volume v) st"

definition addContainer ::
    "handle \<Rightarrow> string \<Rightarrow> ContainerDefinitionOptions \<Rightarrow> AppStack \<Rightarrow> handle \<times> AppStack" where
  "addContainer td cid opts st = new_construct (Of td) cid (ContainerDefinition opts []) st"

fun with_mount :: "MountPoint \<Rightarrow> Resource \<Rightarrow> Resource" where
  "with_mount m (ContainerDefinition p ms) = ContainerDefinition p (ms @ [m])"
| "with_mount m r = r"

definition put_mount :: "MountPoint \<Rightarrow> Construct \<Rightarrow> Construct" where
  "put_mount m c = c\<lparr>resource := with_mount m (resource c)\<rparr>"

definition addMountPoints :: "handle \<Rightarrow> MountPoint \<Rightarrow> AppStack \<Rightarrow> AppStack" where
  "addMountPoints cd m st = modify cd (put_mount m) st"

definition new_FargateService ::
    "string \<Rightarrow> FargateServiceProps \<Rightarrow> AppStack \<Rightarrow> handle \<times> AppStack" where
  "new_FargateService cid props st = new_construct This cid (FargateService props []) st"

fun with_rule :: "handle \<times> Port \<Rightarrow> Resource \<Rightarrow> Resource" where
  "with_rule r (FargateService p rs) = FargateService p (rs @ [r])"
| "with_rule r x = x"

definition put_rule :: "handle \<times> Port \<Rightarrow> Construct \<Rightarrow> Construct" where
  "put_rule r c = c\<lparr>resource := with_rule r (resource c)\<rparr>"

definition connections_allowTo :: "handle \<Rightarrow> handle \<Rightarrow> Port \<Rightarrow> AppStack \<Rightarrow> AppStack" where
  "connections_allowTo svc other p st = modify svc (put_rule (other, p)) st"

definition new_ApplicationLoadBalancer ::
    "string \<Rightarrow> ApplicationLoadBalancerProps \<Rightarrow> AppStack \<Rightarrow> handle \<times> AppStack" where
  "new_ApplicationLoadBalancer cid props st =
     new_construct This cid (ApplicationLoadBalancer props) st"

definition addListener ::
    "handle \<Rightarrow> string \<Rightarrow> BaseApplicationListenerProps \<Rightarrow> AppStack \<Rightarrow> handle \<times> AppStack" where
  "addListener lb cid props st = new_construct (Of lb) cid (ApplicationListener props) st"

definition addTargets ::
    "handle \<Rightarrow> string \<Rightarrow> AddApplicationTargetsProps \<Rightarrow> AppStack \<Rightarrow> handle \<times> AppStack" where
  "addTargets l cid props st = new_construct (Of l) cid (ApplicationTargetGroup props) st"

text \<open>\<^verbatim>\<open>Tags.of(resource).add(key, value)\<close>: the tag is put on that construct.\<close>

definition put_tag :: "string \<Rightarrow> string \<Rightarrow> Construct \<Rightarrow> Construct" where
  "put_tag k v c = c\<lparr>tags := AList.update k v (tags c)\<rparr>"

definition Tags_add :: "handle \<Rightarrow> string \<Rightarrow> string \<Rightarrow> AppStack \<Rightarrow> AppStack" where
  "Tags_add h k v st = modify h (put_tag k v) st"

section \<open>The stack: \<^verbatim>\<open>lib/app-stack.ts\<close>\<close>

definition addAppTag :: "handle \<Rightarrow> AppStack \<Rightarrow> AppStack" where
  "addAppTag r st = Tags_add r ''AppName'' (AppStack.appName st) st"

text \<open>
  The constructor, statement by statement. Its first argument, the application the
  stack is registered in, is not read by the code of the stack and is left out.
\<close>

definition AppStack_constructor :: "string \<Rightarrow> AppProps option \<Rightarrow> AppStack" where
  "AppStack_constructor sid props =
    (let st = Stack_super sid props;
         st = st\<lparr>AppStack.appName := js_or (map_option AppProps.appName props) []\<rparr>;
         jenkinsHomeDir = ''jenkins-home'';

         assetName = AppStack.appName st @ ''-cluster'';
         (cluster, st) = new_Cluster assetName \<lparr>clusterName = AppStack.appName st\<rparr> st;
         st = addAppTag (node cluster) st;

         vpc = ClusterObject.vpc cluster;
         st = addAppTag vpc st;

         assetName = AppStack.appName st @ ''-efs'';
         (fs, st) = new_FileSystem assetName
            \<lparr>FileSystemProps.vpc = vpc,
             fileSystemName = AppStack.appName st,
             removalPolicy = DESTROY\<rparr> st;
         st = addAppTag fs st;

         assetName = AppStack.appName st @ ''-ap'';
         (accessPoint, st) = addAccessPoint fs assetName
            \<lparr>AccessPointOptions.path = ''/'' @ jenkinsHomeDir,
             posixUser = \<lparr>uid = ''1000'', gid = ''1000''\<rparr>,
             createAcl = \<lparr>ownerGid = ''1000'', ownerUid = ''1000'', permissions = ''755''\<rparr>\<rparr> st;
         st = addAppTag accessPoint st;

         assetName = AppStack.appName st @ ''-task'';
         (taskDef, st) = new_FargateTaskDefinition assetName
            \<lparr>family = AppStack.appName st, cpu = 1024, memoryLimitMiB = 2048\<rparr> st;
         st = addAppTag taskDef st;

         st = addVolume taskDef
            \<lparr>name = jenkinsHomeDir,
             efsVolumeConfiguration =
               \<lparr>fileSystemId = fs,
                transitEncryption = ''ENABLED'',
                authorizationConfig = \<lparr>accessPointId = accessPoint, iam = ''ENABLED''\<rparr>\<rparr>\<rparr> st;

         (cd, st) = addContainer taskDef (AppStack.appName st)
            \<lparr>image = fromRegistry ''jenkins/jenkins:lts'',
             logging = awsLogs ''jenkins'',
             portMappings = [\<lparr>containerPort = 8080\<rparr>]\<rparr> st;

         st = addMountPoints cd
            \<lparr>containerPath = ''/var/jenkins_home'',
             sourceVolume = jenkinsHomeDir,
             readOnly = False\<rparr> st;

         assetName = AppStack.appName st @ ''-service'';
         (fService, st) = new_FargateService assetName
            \<lparr>serviceName = AppStack.appName st,
             cluster = node cluster,
             taskDefinition = taskDef,
             desiredCount = 1,
             maxHealthyPercent = 100,
             minHealthyPercent = 0,
             healthCheckGracePeriod = Duration_minutes 5\<rparr> st;
         st = connections_allowTo fService fs (Port_tcp 2049) st;
         st = addAppTag fService st;

         assetName = AppStack.appName st @ ''-elb'';
         (lb, st) = new_ApplicationLoadBalancer assetName
            \<lparr>loadBalancerName = AppStack.appName st,
             ApplicationLoadBalancerProps.vpc = vpc,
             internetFacing = True\<rparr> st;
         st = addAppTag lb st;

         assetName = AppStack.appName st @ ''-listener'';
         (lbListener, st) = addListener lb assetName \<lparr>BaseApplicationListenerProps.port = 80\<rparr> st;
         st = addAppTag lbListener st;

         assetName = AppStack.appName st @ ''-target'';
         (lbTarget, st) = addTargets lbListener assetName
            \<lparr>AddApplicationTargetsProps.port = 8080,
             targets = [fService],
             deregistrationDelay = Duration_seconds 10,
             healthCheck = \<lparr>HealthCheck.path = ''/login''\<rparr>\<rparr> st
     in st)"

section \<open>The entry point\<close>


section \<open>Reading the assembled stack\<close>

text \<open>The application name the constructor stores: \<^verbatim>\<open>props?.appName || ''\<close>.\<close>

definition resolved :: "AppProps option \<Rightarrow> string" where
  "resolved props = js_or (map_option AppProps.appName props) []"

datatype Kind = CLUSTER | VPC | FILE_SYSTEM | ACCESS_POINT | TASK_DEFINITION | CONTAINER
  | SERVICE | LOAD_BALANCER | LISTENER | TARGET_GROUP

fun kind_of :: "Resource \<Rightarrow> Kind" where
  "kind_of (Cluster p) = CLUSTER"
| "kind_of Vpc = VPC"
| "kind_of (FileSystem p) = FILE_SYSTEM"
| "kind_of (AccessPoint p) = ACCESS_POINT"
| "kind_of (FargateTaskDefinition p vs) = TASK_DEFINITION"
| "kind_of (ContainerDefinition p ms) = CONTAINER"
| "kind_of (FargateService p rs) = SERVICE"
| "kind_of (ApplicationLoadBalancer p) = LOAD_BALANCER"
| "kind_of (ApplicationListener p) = LISTENER"
| "kind_of (ApplicationTargetGroup p) = TARGET_GROUP"

definition has_kind :: "Kind \<Rightarrow> Construct \<Rightarrow> bool" where
  "has_kind k c = (kind_of (resource c) = k)"

definition of_kind :: "Kind \<Rightarrow> AppStack \<Rightarrow> Construct list" where
  "of_kind k st = filter (has_kind k) (constructs st)"

definition ids_of :: "Kind \<Rightarrow> AppStack \<Rightarrow> string list" where
  "ids_of k st = map node_id (of_kind k st)"

text \<open>The value of the tag \<^verbatim>\<open>AppName\<close> put on a construct, if any.\<close>

definition app_tag :: "Construct \<Rightarrow> string option" where
  "app_tag c = map_of (tags c) ''AppName''"

definition app_tags :: "Kind \<Rightarrow> AppStack \<Rightarrow> string option list" where
  "app_tags k st = map app_tag (of_kind k st)"

definition resource_at :: "AppStack \<Rightarrow> handle \<Rightarrow> Resource option" where
  "resource_at st h =
     (if h < length (constructs st) then Some (resource (constructs st ! h)) else None)"

definition kind_at :: "AppStack \<Rightarrow> handle \<Rightarrow> Kind option" where
  "kind_at st h = map_option kind_of (resource_at st h)"

definition handles_of :: "Kind \<Rightarrow> AppStack \<Rightarrow> handle list" where
  "handles_of k st = filter (\<lambda>h. kind_at st h = Some k) [0..<length (constructs st)]"


fun as_FileSystem :: "Resource \<Rightarrow> FileSystemProps option" where
  "as_FileSystem (FileSystem p) = Some p"
| "as_FileSystem r = None"

fun as_AccessPoint :: "Resource \<Rightarrow> AccessPointOptions option" where
  "as_AccessPoint (AccessPoint p) = Some p"
| "as_AccessPoint r = None"

fun as_TaskDefinition :: "Resource \<Rightarrow> (FargateTaskDefinitionProps \<times> Volume list) option" where
  "as_TaskDefinition (FargateTaskDefinition p vs) = Some (p, vs)"
| "as_TaskDefinition r = None"

fun as_Container :: "Resource \<Rightarrow> (ContainerDefinitionOptions \<times> MountPoint list) option" where
  "as_Container (ContainerDefinition p ms) = Some (p, ms)"
| "as_Container r = None"

fun as_Service :: "Resource \<Rightarrow> (FargateServiceProps \<times> (handle \<times> Port) list) option" where
  "as_Service (FargateService p rs) = Some (p, rs)"
| "as_Service r = None"

fun as_LoadBalancer :: "Resource \<Rightarrow> ApplicationLoadBalancerProps option" where
  "as_LoadBalancer (ApplicationLoadBalancer p) = Some p"
| "as_LoadBalancer r = None"

fun as_Listener :: "Resource \<Rightarrow> BaseApplicationListenerProps option" where
  "as_Listener (ApplicationListener p) = Some p"
| "as_Listener r = None"

fun as_TargetGroup :: "Resource \<Rightarrow> AddApplicationTargetsProps option" where
  "as_TargetGroup (ApplicationTargetGroup p) = Some p"
| "as_TargetGroup r = None"

text \<open>All declarations of one type, in the order of their creation.\<close>

definition declared :: "(Resource \<Rightarrow> 'a option) \<Rightarrow> AppStack \<Rightarrow> 'a list" where
  "declared f st = List.map_filter f (map resource (constructs st))"

definition scope_kind :: "AppStack \<Rightarrow> Construct \<Rightarrow> Kind option" where
  "scope_kind st c = (case node_scope c of This \<Rightarrow> None | Of h \<Rightarrow> kind_at st h)"

definition in_scope_of :: "AppStack \<Rightarrow> Kind \<Rightarrow> Construct \<Rightarrow> bool" where
  "in_scope_of st k c = (scope_kind st c = Some k)"

text \<open>The constructs of kind \<open>child\<close> made by an object of kind \<open>parent\<close>.\<close>

definition children_of :: "Kind \<Rightarrow> Kind \<Rightarrow> AppStack \<Rightarrow> Construct list" where
  "children_of parent child st = filter (in_scope_of st parent) (of_kind child st)"

definition volumes :: "AppStack \<Rightarrow> Volume list" where
  "volumes st = concat (map snd (declared as_TaskDefinition st))"

definition accessPoint_of :: "AppStack \<Rightarrow> Volume \<Rightarrow> AccessPointOptions option" where
  "accessPoint_of st v =
     Option.bind (resource_at st (accessPointId (authorizationConfig (efsVolumeConfiguration v))))
       as_AccessPoint"

text \<open>The outbound rules of the services, with the kind of the peer each one names.\<close>

definition egress_rules :: "AppStack \<Rightarrow> (Kind option \<times> Port) list" where
  "egress_rules st = map (apfst (kind_at st)) (concat (map snd (declared as_Service st)))"

subsection \<open>Dependencies\<close>

text \<open>
  A construct depends on the object whose method made it and on every object its
  properties, volumes, rules or targets name.
\<close>

fun scope_refs :: "Scope \<Rightarrow> handle list" where
  "scope_refs This = []"
| "scope_refs (Of h) = [h]"

definition volume_refs :: "Volume \<Rightarrow> handle list" where
  "volume_refs v =
     [fileSystemId (efsVolumeConfiguration v),
      accessPointId (authorizationConfig (efsVolumeConfiguration v))]"

fun refs :: "Resource \<Rightarrow> handle list" where
  "refs (Cluster p) = []"
| "refs Vpc = []"
| "refs (FileSystem p) = [FileSystemProps.vpc p]"
| "refs (AccessPoint p) = []"
| "refs (FargateTaskDefinition p vs) = concat (map volume_refs vs)"
| "refs (ContainerDefinition p ms) = []"
| "refs (FargateService p rs) = [cluster p, taskDefinition p] @ map fst rs"
| "refs (ApplicationLoadBalancer p) = [ApplicationLoadBalancerProps.vpc p]"
| "refs (ApplicationListener p) = []"
| "refs (ApplicationTargetGroup p) = targets p"

definition deps :: "Construct \<Rightarrow> handle list" where
  "deps c = scope_refs (node_scope c) @ refs (resource c)"

definition edges_from :: "AppStack \<Rightarrow> handle \<Rightarrow> (handle \<times> handle) list" where
  "edges_from st i = map (Pair i) (deps (constructs st ! i))"

definition dependency_edges :: "AppStack \<Rightarrow> (handle \<times> handle) list" where
  "dependency_edges st = concat (map (edges_from st) [0..<length (constructs st)])"


definition dependencies_of :: "Kind \<Rightarrow> AppStack \<Rightarrow> Kind list" where
  "dependencies_of k st = List.map_filter (kind_at st) (concat (map deps (of_kind k st)))"

section \<open>The assembled stack, evaluated\<close>

lemmas lib_defs = Stack_super_def new_construct_def modify_def new_Cluster_def new_FileSystem_def
  addAccessPoint_def new_FargateTaskDefinition_def put_volume_def addVolume_def addContainer_def
  put_mount_def addMountPoints_def new_FargateService_def put_rule_def connections_allowTo_def
  new_ApplicationLoadBalancer_def addListener_def addTargets_def put_tag_def Tags_add_def
  addAppTag_def

lemmas view_defs = has_kind_def of_kind_def ids_of_def app_tag_def app_tags_def resource_at_def
  kind_at_def declared_def scope_kind_def in_scope_of_def children_of_def volumes_def
  accessPoint_of_def volume_refs_def deps_def edges_from_def dependency_edges_def
  dependencies_of_def handles_of_def egress_rules_def

text \<open>
  Running the constructor on any stack identifier and any properties gives ten
  constructs, in this order and with these contents.
\<close>

lemma AppStack_constructor_eq:
  "AppStack_constructor sid props =
    \<lparr>stack_id = sid,
     stack_props = props,
     appName = resolved props,
     constructs =
      [\<lparr>node_scope = This, node_id = resolved props @ ''-cluster'',
        resource = Cluster \<lparr>clusterName = resolved props\<rparr>,
        tags = [(''AppName'', resolved props)]\<rparr>,
       \<lparr>node_scope = Of 0, node_id = ''Vpc'', resource = Vpc,
        tags = [(''AppName'', resolved props)]\<rparr>,
       \<lparr>node_scope = This, node_id = resolved props @ ''-efs'',
        resource = FileSystem
           \<lparr>FileSystemProps.vpc = 1, fileSystemName = resolved props, removalPolicy = DESTROY\<rparr>,
        tags = [(''AppName'', resolved props)]\<rparr>,
       \<lparr>node_scope = Of 2, node_id = resolved props @ ''-ap'',
        resource = AccessPoint
           \<lparr>AccessPointOptions.path = ''/jenkins-home'',
            posixUser = \<lparr>uid = ''1000'', gid = ''1000''\<rparr>,
            createAcl = \<lparr>ownerGid = ''1000'', ownerUid = ''1000'', permissions = ''755''\<rparr>\<rparr>,
        tags = [(''AppName'', resolved props)]\<rparr>,
       \<lparr>node_scope = This, node_id = resolved props @ ''-task'',
        resource = FargateTaskDefinition
           \<lparr>family = resolved props, cpu = 1024, memoryLimitMiB = 2048\<rparr>
           [\<lparr>name = ''jenkins-home'',
             efsVolumeConfiguration =
               \<lparr>fileSystemId = 2, transitEncryption = ''ENABLED'',
                authorizationConfig = \<lparr>accessPointId = 3, iam = ''ENABLED''\<rparr>\<rparr>\<rparr>],
        tags = [(''AppName'', resolved props)]\<rparr>,
       \<lparr>node_scope = Of 4, node_id = resolved props,
        resource = ContainerDefinition
           \<lparr>image = fromRegistry ''jenkins/jenkins:lts'',
            logging = awsLogs ''jenkins'',
            portMappings = [\<lparr>containerPort = 8080\<rparr>]\<rparr>
           [\<lparr>containerPath = ''/var/jenkins_home'',
             sourceVolume = ''jenkins-home'', readOnly = False\<rparr>],
        tags = []\<rparr>,
       \<lparr>node_scope = This, node_id = resolved props @ ''-service'',
        resource = FargateService
           \<lparr>serviceName = resolved props, cluster = 0, taskDefinition = 4,
            desiredCount = 1, maxHealthyPercent = 100, minHealthyPercent = 0,
            healthCheckGracePeriod = Duration 5 Minutes\<rparr>
           [(2, Port_tcp 2049)],
        tags = [(''AppName'', resolved props)]\<rparr>,
       \<lparr>node_scope = This, node_id = resolved props @ ''-elb'',
        resource = ApplicationLoadBalancer
           \<lparr>loadBalancerName = resolved props, vpc = 1, internetFacing = True\<rparr>,
        tags = [(''AppName'', resolved props)]\<rparr>,
       \<lparr>node_scope = Of 7, node_id = resolved props @ ''-listener'',
        resource = ApplicationListener \<lparr>BaseApplicationListenerProps.port = 80\<rparr>,
        tags = [(''AppName'', resolved props)]\<rparr>,
       \<lparr>node_scope = Of 8, node_id = resolved props @ ''-target'',
        resource = ApplicationTargetGroup
           \<lparr>AddApplicationTargetsProps.port = 8080, targets = [6],
            deregistrationDelay = Duration 10 Seconds,
            healthCheck = \<lparr>HealthCheck.path = ''/login''\<rparr>\<rparr>,
        tags = []\<rparr>]\<rparr>"
  by (simp add: AppStack_constructor_def lib_defs Let_def resolved_def
        Duration_minutes_def Duration_seconds_def)

lemma resolved_Some: "resolved (Some p) = AppProps.appName p"
  by (simp add: resolved_def js_or_def)





section \<open>Tags\<close>



text \<open>
  C10. For every application name the network of the cluster, which the constructor
  reads as \<^verbatim>\<open>cluster.vpc\<close>, carries the tag \<^verbatim>\<open>AppName\<close> with the application name as its
  value, like the resources that are passed to \<^verbatim>\<open>addAppTag\<close>; it is the one network
  of the stack and belongs to the cluster.
\<close>

theorem vpc_carries_app_tag:
  "(let st = AppStack_constructor sid (Some p) in
     app_tags VPC st = [Some (AppProps.appName p)]
   \<and> length (children_of CLUSTER VPC st) = 1)"
  by (simp add: Let_def AppStack_constructor_eq resolved_Some view_defs)

section \<open>Dependencies between the declarations\<close>



section \<open>Identifiers and names\<close>



section \<open>Storage, task definition and load balancer\<close>

text \<open>
  C4. For every application name, and also without properties, the stack declares one
  file system and its removal policy is \<open>DESTROY\<close>.
\<close>

theorem fileSystem_removalPolicy_destroy:
  "map removalPolicy (declared as_FileSystem (AppStack_constructor sid props)) = [DESTROY]"
  by (simp add: AppStack_constructor_eq view_defs)

text \<open>
  C5. For every application name the one task definition has exactly one container,
  one volume and one port mapping, for container port 8080; it reserves 1024 CPU units
  and 2048 MiB of memory; and the access point its volume names has path
  \<^verbatim>\<open>/jenkins-home\<close>, POSIX user and group 1000, owner 1000 and permissions 755.
\<close>

theorem taskDef_container_volume_accessPoint:
  "(let st = AppStack_constructor sid props in
     length (of_kind TASK_DEFINITION st) = 1
   \<and> length (of_kind CONTAINER st) = 1
   \<and> length (children_of TASK_DEFINITION CONTAINER st) = 1
   \<and> map length (map snd (declared as_TaskDefinition st)) = [1]
   \<and> map portMappings (map fst (declared as_Container st)) = [[\<lparr>containerPort = 8080\<rparr>]]
   \<and> map cpu (map fst (declared as_TaskDefinition st)) = [1024]
   \<and> map memoryLimitMiB (map fst (declared as_TaskDefinition st)) = [2048]
   \<and> map (accessPoint_of st) (volumes st) =
       [Some \<lparr>AccessPointOptions.path = ''/jenkins-home'',
              posixUser = \<lparr>uid = ''1000'', gid = ''1000''\<rparr>,
              createAcl = \<lparr>ownerGid = ''1000'', ownerUid = ''1000'', permissions = ''755''\<rparr>\<rparr>])"
  by (simp add: Let_def AppStack_constructor_eq view_defs)

text \<open>
  C8. For every application name the one volume of the task definition names the file
  system and the access point made on that file system, with transit encryption
  \<^verbatim>\<open>ENABLED\<close> and IAM authorization \<^verbatim>\<open>ENABLED\<close>; the image of the container is
  \<^verbatim>\<open>jenkins/jenkins:lts\<close>; and the container mounts that volume at
  \<^verbatim>\<open>/var/jenkins_home\<close>, not read-only.
\<close>

theorem volume_image_mountPoint:
  "(let st = AppStack_constructor sid props in
     map length (map snd (declared as_TaskDefinition st)) = [1]
   \<and> map (kind_at st) (map fileSystemId (map efsVolumeConfiguration (volumes st)))
        = [Some FILE_SYSTEM]
   \<and> map (kind_at st) (map accessPointId (map authorizationConfig
          (map efsVolumeConfiguration (volumes st)))) = [Some ACCESS_POINT]
   \<and> map node_scope (of_kind ACCESS_POINT st)
        = map Of (map fileSystemId (map efsVolumeConfiguration (volumes st)))
   \<and> map transitEncryption (map efsVolumeConfiguration (volumes st)) = [''ENABLED'']
   \<and> map iam (map authorizationConfig (map efsVolumeConfiguration (volumes st))) = [''ENABLED'']
   \<and> map image (map fst (declared as_Container st)) = [fromRegistry ''jenkins/jenkins:lts'']
   \<and> map snd (declared as_Container st) =
        [[\<lparr>containerPath = ''/var/jenkins_home'', sourceVolume = ''jenkins-home'',
           readOnly = False\<rparr>]]
   \<and> map name (volumes st) = [''jenkins-home''])"
  by (simp add: Let_def AppStack_constructor_eq view_defs)

text \<open>
  C6. For every application name the one load balancer is internet-facing; it has
  exactly one listener, on port 80; and that listener has exactly one target group,
  which forwards to the service on port 8080, with a deregistration delay of 10
  seconds and a health check on path \<^verbatim>\<open>/login\<close>.
\<close>

theorem loadBalancer_listener_targetGroup:
  "(let st = AppStack_constructor sid props in
     map internetFacing (declared as_LoadBalancer st) = [True]
   \<and> length (of_kind LISTENER st) = 1
   \<and> length (children_of LOAD_BALANCER LISTENER st) = 1
   \<and> map BaseApplicationListenerProps.port (declared as_Listener st) = [80]
   \<and> length (of_kind TARGET_GROUP st) = 1
   \<and> length (children_of LISTENER TARGET_GROUP st) = 1
   \<and> map AddApplicationTargetsProps.port (declared as_TargetGroup st) = [8080]
   \<and> map deregistrationDelay (declared as_TargetGroup st) = [Duration_seconds 10]
   \<and> map toSeconds (map deregistrationDelay (declared as_TargetGroup st)) = [10]
   \<and> map healthCheck (declared as_TargetGroup st) = [\<lparr>HealthCheck.path = ''/login''\<rparr>]
   \<and> map (map (kind_at st)) (map targets (declared as_TargetGroup st)) = [[Some SERVICE]])"
  by (simp add: Let_def AppStack_constructor_eq view_defs Duration_seconds_def)

section \<open>A missing or empty application name\<close>


end
